theory Spec2Isabelle
  imports Complex_Main
begin

section \<open>Exceptions\<close>

text \<open>
  The exceptions of \<^verbatim>\<open>moler.exceptions\<close> and of Python that the modelled functions
  raise, catch or store. Every constructor stands for an instance of Python's
  \<^verbatim>\<open>Exception\<close> class, which is what the \<^verbatim>\<open>except Exception\<close> clauses of
  the runner catch. \<open>MolerTimeout\<close> carries the timeout, the kind tag (\<open>None\<close> where the
  caller leaves the default of the callee) and the passed time.
\<close>

datatype exc =
    MolerException string
  | MolerTimeout "real option" "string option" real
  | WrongUsage string
  | KeyError string
  | AssertionError
  | TypeError string
  | RuntimeError string
  | CancelledError
  | TimeoutError
  | OtherError string

section \<open>Configuration loading (\<^verbatim>\<open>moler/config/__init__.py\<close>)\<close>

text \<open>
  The \<^verbatim>\<open>config\<close> argument of \<^verbatim>\<open>load_config\<close> is \<^verbatim>\<open>None\<close>, a file name or a
  dictionary. A dictionary is the list of its items, read with \<open>map_of\<close>; the order of the
  items does not count when two dictionaries are compared. The values are of any type
  \<open>'v\<close>, and HOL's equality on them is Python's deep equality.
\<close>

datatype 'v config = ConfigNone | ConfigStr string | ConfigDict "(string \<times> 'v) list"

text \<open>Python's \<^verbatim>\<open>not config\<close>: \<^verbatim>\<open>None\<close>, the empty string and the empty dictionary are false.\<close>

fun falsy :: "'v config \<Rightarrow> bool" where
  "falsy ConfigNone = True"
| "falsy (ConfigStr s) = (s = [])"
| "falsy (ConfigDict d) = (d = [])"

text \<open>\<^verbatim>\<open>not from_env_var\<close> for an optional string.\<close>

fun falsy_str :: "string option \<Rightarrow> bool" where
  "falsy_str None = True"
| "falsy_str (Some s) = (s = [])"

definition NOT_LOADED_YET :: "'v config" where
  "NOT_LOADED_YET = ConfigStr ''NOT_LOADED_YET''"

text \<open>
  Modelled from the spec: \<^verbatim>\<open>moler.helpers.compare_objects\<close> is not among the sources. The
  spec calls the comparison deep equality; the function returns the differences found,
  an empty (false) value when there are none.
\<close>

definition dict_equal :: "(string \<times> 'v) list \<Rightarrow> (string \<times> 'v) list \<Rightarrow> bool" where
  "dict_equal d1 d2 =
     (set (map fst d1) = set (map fst d2) \<and> (\<forall>k \<in> set (map fst d1). map_of d1 k = map_of d2 k))"

fun deep_equal :: "'v config \<Rightarrow> 'v config \<Rightarrow> bool" where
  "deep_equal ConfigNone ConfigNone = True"
| "deep_equal (ConfigStr a) (ConfigStr b) = (a = b)"
| "deep_equal (ConfigDict a) (ConfigDict b) = dict_equal a b"
| "deep_equal _ _ = False"

definition compare_objects :: "'v config \<Rightarrow> 'v config \<Rightarrow> ('v config \<times> 'v config) list" where
  "compare_objects a b = (if deep_equal a b then [] else [(a, b)])"

fun configs_are_same :: "'v config list \<Rightarrow> 'v config \<Rightarrow> bool" where
  "configs_are_same [] config_to_find = False"
| "configs_are_same (config # config_list) config_to_find =
     (if compare_objects config config_to_find = [] then True
      else configs_are_same config_list config_to_find)"

text \<open>
  The three loaders \<^verbatim>\<open>load_logger_from_config\<close>, \<^verbatim>\<open>load_connection_from_config\<close> and
  \<^verbatim>\<open>load_device_from_config\<close> act only on the modules \<^verbatim>\<open>log_cfg\<close>, \<^verbatim>\<open>conn_cfg\<close>,
  \<^verbatim>\<open>dev_cfg\<close> and \<^verbatim>\<open>DeviceFactory\<close>, none of which is among the sources. A call of a
  loader is recorded with its arguments; whether it raises is a parameter of the
  environment that may depend on the calls made before. What a loader does in place to a
  dictionary it is given is not modelled.
\<close>

datatype 'v loader_call =
    Load_logger "'v config"
  | Load_connection "'v config"
  | Load_device "'v config" bool

record 'v cfg_env =
  environ :: "string \<rightharpoonup> string"
  isabs :: "string \<Rightarrow> bool"
  yaml_file :: "string \<Rightarrow> exc + 'v config"
  loader_raises :: "'v loader_call list \<Rightarrow> 'v loader_call \<Rightarrow> exc option"

record 'v cfg_state =
  loaded_config :: "'v config list"
  calls :: "'v loader_call list"

definition initial_cfg_state :: "'v cfg_state" where
  "initial_cfg_state = \<lparr>loaded_config = [NOT_LOADED_YET], calls = []\<rparr>"

definition quoted :: "string \<Rightarrow> string" where
  "quoted s = CHR 0x27 # s @ [CHR 0x27]"

text \<open>
  \<^verbatim>\<open>read_yaml_configfile\<close>: \<open>yaml_file env path\<close> is what opening, reading and parsing the
  file gives (an error of the file system or of the parser, or the document).
\<close>

definition read_yaml_configfile :: "'v cfg_env \<Rightarrow> string \<Rightarrow> exc + 'v config" where
  "read_yaml_configfile env path =
     (if isabs env path then yaml_file env path
      else Inl (MolerException
             (''Loading configuration requires absolute path and not '' @ quoted path)))"

definition run_loader ::
  "'v cfg_env \<Rightarrow> 'v loader_call \<Rightarrow> 'v cfg_state \<Rightarrow> exc option \<times> 'v cfg_state" where
  "run_loader env c st = (loader_raises env (calls st) c, st\<lparr>calls := calls st @ [c]\<rparr>)"

text \<open>
  \<^verbatim>\<open>load_config\<close>. The result is the exception raised, if any, and the state left behind:
  the global \<^verbatim>\<open>loaded_config\<close> and the loader calls made so far.
\<close>

definition load_config ::
  "'v cfg_env \<Rightarrow> 'v cfg_state \<Rightarrow> 'v config \<Rightarrow> string option \<Rightarrow> string
     \<Rightarrow> exc option \<times> 'v cfg_state" where
  "load_config env st0 config from_env_var config_type =
     (case (if NOT_LOADED_YET \<in> set (loaded_config st0) then
              Some (False, st0\<lparr>loaded_config := [config]\<rparr>)
            else if configs_are_same (loaded_config st0) config then None
            else Some (True, st0\<lparr>loaded_config := loaded_config st0 @ [config]\<rparr>)) of
        None \<Rightarrow> (None, st0)
      | Some (add_devices_only, st) \<Rightarrow>
     (if config_type \<noteq> ''dict'' \<and> config_type \<noteq> ''yaml'' then
        (Some (WrongUsage (''Unsupported config_type: '' @ quoted config_type
                 @ ''. Allowed are: '' @ quoted ''dict'' @ '' or '' @ quoted ''yaml'' @ ''.'')), st)
      else
        let read =
          (if falsy config then
             (if falsy_str from_env_var then
                Inl (WrongUsage (''Provide either '' @ quoted ''config'' @ '' or ''
                       @ quoted ''from_env_var'' @ '' parameter (none given).''))
              else case environ env (the from_env_var) of
                  None \<Rightarrow> Inl (KeyError (''Environment variable '' @ quoted (the from_env_var)
                                  @ '' is not set''))
                | Some path \<Rightarrow> read_yaml_configfile env path)
           else if config_type = ''yaml'' then
             (case config of
                ConfigStr path \<Rightarrow> read_yaml_configfile env path
              | _ \<Rightarrow> Inl AssertionError)
           else
             (case config of
                ConfigDict d \<Rightarrow> Inr config
              | _ \<Rightarrow> Inl AssertionError))
        in (case read of
            Inl e \<Rightarrow> (Some e, st)
          | Inr doc \<Rightarrow>
              if \<not> add_devices_only then
                (case run_loader env (Load_logger doc) st of
                   (Some e, st1) \<Rightarrow> (Some e, st1)
                 | (None, st1) \<Rightarrow>
                     (case run_loader env (Load_connection doc) st1 of
                        (Some e, st2) \<Rightarrow> (Some e, st2)
                      | (None, st2) \<Rightarrow> run_loader env (Load_device doc False) st2))
              else run_loader env (Load_device doc True) st)))"

text \<open>
  An environment for examples: POSIX paths (absolute when they start with a slash), no
  environment variables, every file holding the same one-key document, loaders that succeed.
\<close>

definition posix_env :: "nat cfg_env" where
  "posix_env = \<lparr>environ = Map.empty, isabs = (\<lambda>p. p \<noteq> [] \<and> hd p = CHR ''/''),
                 yaml_file = (\<lambda>p. Inr (ConfigDict [(''DEVICES'', 1)])),
                 loader_raises = (\<lambda>h c. None)\<rparr>"

section \<open>The observer and the connection\<close>

text \<open>
  Time is a real number of seconds: \<^verbatim>\<open>time.time()\<close>, \<^verbatim>\<open>start_time\<close> and \<^verbatim>\<open>timeout\<close>
  are compared and subtracted, nothing else. Data chunks are strings.
\<close>

type_synonym chunk = string

text \<open>
  Modelled from the spec: the class \<^verbatim>\<open>ConnectionObserver\<close> is not among the sources. The
  spec gives an observer a \<^verbatim>\<open>start_time\<close>, a deadline that may be changed while it runs
  (the attribute \<^verbatim>\<open>timeout\<close> of the code, \<^verbatim>\<open>None\<close> for no deadline) and a state, one of
  unstarted, running, succeeded, failed and cancelled, with a result exactly when
  succeeded and an exception exactly when failed. The last three are terminal and
  sticky: \<^verbatim>\<open>done()\<close> is true in them, and \<^verbatim>\<open>set_result\<close>, \<^verbatim>\<open>set_exception\<close> and
  \<^verbatim>\<open>cancel\<close> change nothing once the observer is done. A command is an observer with a
  \<^verbatim>\<open>command_string\<close>.
\<close>

datatype 'r obs_state = Unstarted | Running | Succeeded 'r | Failed exc | Cancelled

record 'r observer =
  start_time :: real
  timeout :: "real option"
  state :: "'r obs_state"
  command_string :: "string option"

definition observer_done :: "'r observer \<Rightarrow> bool" where
  "observer_done ob =
     (case state ob of Succeeded r \<Rightarrow> True | Failed e \<Rightarrow> True | Cancelled \<Rightarrow> True | _ \<Rightarrow> False)"

definition observer_exception :: "'r observer \<Rightarrow> exc option" where
  "observer_exception ob = (case state ob of Failed e \<Rightarrow> Some e | _ \<Rightarrow> None)"

definition set_result :: "'r \<Rightarrow> 'r observer \<Rightarrow> 'r observer" where
  "set_result r ob = (if observer_done ob then ob else ob\<lparr>state := Succeeded r\<rparr>)"

definition set_exception :: "exc \<Rightarrow> 'r observer \<Rightarrow> 'r observer" where
  "set_exception e ob = (if observer_done ob then ob else ob\<lparr>state := Failed e\<rparr>)"

definition observer_cancel :: "'r observer \<Rightarrow> 'r observer" where
  "observer_cancel ob = (if observer_done ob then ob else ob\<lparr>state := Cancelled\<rparr>)"

definition is_command :: "'r observer \<Rightarrow> bool" where
  "is_command ob = (command_string ob \<noteq> None)"

text \<open>
  Modelled from the spec: \<^verbatim>\<open>moler.runner.time_out_observer\<close> is not among the sources. By
  the spec the observer is transitioned to failed with a Timeout that carries the kind
  tag and the elapsed time; the transition is one of the sticky ones above.
\<close>

definition time_out_observer ::
  "'r observer \<Rightarrow> real option \<Rightarrow> real \<Rightarrow> string option \<Rightarrow> 'r observer" where
  "time_out_observer ob tmo passed_time kind = set_exception (MolerTimeout tmo kind passed_time) ob"

text \<open>
  What the domain code in \<^verbatim>\<open>data_received\<close> does with a chunk is a parameter: it may
  change the observer, and it may raise.
\<close>

type_synonym 'r data_received = "chunk \<Rightarrow> 'r observer \<Rightarrow> exc option \<times> 'r observer"

text \<open>
  The calls that the properties below speak about are recorded in a trace, each with the
  state of the observer lock at the moment of the call.
\<close>

datatype call =
    Data_received chunk
  | Set_exception exc
  | Time_out_observer
  | Observer_cancel
  | Future_cancel

text \<open>
  The world of one observer: the observer, its lock, the runner's \<^verbatim>\<open>_in_shutdown\<close>,
  \<^verbatim>\<open>_started_ev_loops\<close> (their number) and \<^verbatim>\<open>_submitted_futures\<close> (their ids), and the
  connection. Modelled from the spec: the connection class is not among the sources; by
  the spec its subscribers are a set (subscribing twice is subscribing once, unsubscribing
  an absent sink does nothing), and a command's line is written with a newline added.
\<close>

type_synonym sink = nat

record 'r world =
  observer :: "'r observer"
  lock_held :: bool
  in_shutdown :: bool
  started_ev_loops :: nat
  submitted_futures :: "nat list"
  subscribers :: "sink set"
  outbound :: "string list"
  trace :: "(call \<times> bool) list"

definition record_call :: "call \<Rightarrow> 'r world \<Rightarrow> 'r world" where
  "record_call c w = w\<lparr>trace := trace w @ [(c, lock_held w)]\<rparr>"

definition subscribe :: "sink \<Rightarrow> 'r world \<Rightarrow> 'r world" where
  "subscribe s w = w\<lparr>subscribers := insert s (subscribers w)\<rparr>"

definition unsubscribe :: "sink \<Rightarrow> 'r world \<Rightarrow> 'r world" where
  "unsubscribe s w = w\<lparr>subscribers := subscribers w - {s}\<rparr>"

definition sendline :: "string \<Rightarrow> 'r world \<Rightarrow> 'r world" where
  "sendline line w = w\<lparr>outbound := outbound w @ [line @ [CHR 0x0A]]\<rparr>"

text \<open>\<^verbatim>\<open>with observer_lock:\<close> around a change of the observer that is recorded as call \<open>c\<close>.\<close>

definition locked :: "call \<Rightarrow> ('r observer \<Rightarrow> 'r observer) \<Rightarrow> 'r world \<Rightarrow> 'r world" where
  "locked c f w =
     (let w1 = record_call c (w\<lparr>lock_held := True\<rparr>)
      in w1\<lparr>observer := f (observer w1), lock_held := False\<rparr>)"

text \<open>The same without the lock.\<close>

definition unlocked :: "call \<Rightarrow> ('r observer \<Rightarrow> 'r observer) \<Rightarrow> 'r world \<Rightarrow> 'r world" where
  "unlocked c f w = (let w1 = record_call c w in w1\<lparr>observer := f (observer w1)\<rparr>)"

section \<open>Futures\<close>

text \<open>
  A future (an \<^verbatim>\<open>asyncio.Task\<close> or a \<^verbatim>\<open>concurrent.futures.Future\<close>) is pending, finished
  with the result \<^verbatim>\<open>None\<close>, finished with an exception, or cancelled. \<^verbatim>\<open>cancel()\<close> changes a
  pending future only.
\<close>

datatype fut_state = Pending | Finished | Raised exc | Fut_cancelled

record future =
  fut_id :: nat
  fut_state :: fut_state

definition future_done :: "future \<Rightarrow> bool" where
  "future_done f = (fut_state f \<noteq> Pending)"

definition future_cancel :: "future \<Rightarrow> future" where
  "future_cancel f = (if fut_state f = Pending then f\<lparr>fut_state := Fut_cancelled\<rparr> else f)"

text \<open>\<^verbatim>\<open>future.result()\<close> of a future that is done.\<close>

definition future_result :: "future \<Rightarrow> exc option" where
  "future_result f =
     (case fut_state f of Raised e \<Rightarrow> Some e | Fut_cancelled \<Rightarrow> Some CancelledError | _ \<Rightarrow> None)"

section \<open>The runner (\<^verbatim>\<open>moler/asyncio_runner.py\<close>)\<close>

text \<open>Python's \<^verbatim>\<open>"{}".format(n)\<close> for an integer.\<close>

fun str_nat :: "nat \<Rightarrow> string" where
  "str_nat n =
     (if n < 10 then [char_of (48 + n)] else str_nat (n div 10) @ [char_of (48 + n mod 10)])"

declare str_nat.simps [simp del]

definition str_int :: "int \<Rightarrow> string" where
  "str_int i = (if i < 0 then CHR ''-'' # str_nat (nat (- i)) else str_nat (nat i))"

text \<open>
  What the process and the \<^verbatim>\<open>asyncio\<close> library answer is the environment of a call:
  the descriptor and thread counts and the soft limit read by \<^verbatim>\<open>psutil\<close>; what
  \<^verbatim>\<open>asyncio.get_event_loop()\<close> does in the calling thread; whether that loop is running;
  the state of the task that \<^verbatim>\<open>asyncio.ensure_future\<close> hands back, with its id; the
  identity of the sink closure made by \<^verbatim>\<open>_start_feeding\<close>; an exception of the transport
  when a command's line is sent; the clock.
\<close>

datatype loop_probe = Has_loop | No_current_loop | Loop_failure string

record runner_env =
  curr_fds_open :: int
  curr_threads_nb :: int
  max_open_files_limit_soft :: int
  get_event_loop :: loop_probe
  loop_is_running :: bool
  ensured_future :: future
  new_sink :: sink
  send_failure :: "exc option"
  time_time :: real

definition err_cause :: string where
  "err_cause = ''Can't run new asyncio loop - ALMOST REACHED MAX OPEN FILES LIMIT''"

definition limit_msg :: "runner_env \<Rightarrow> string" where
  "limit_msg e = err_cause @ '' ('' @ str_int (max_open_files_limit_soft e) @ ''). Now ''
       @ str_int (curr_fds_open e) @ '' FDs open, '' @ str_int (curr_threads_nb e)
       @ '' threads active.''"

text \<open>
  \<^verbatim>\<open>check_system_resources_limit\<close>: the refusal is a \<^verbatim>\<open>concurrent.futures.Future\<close> that
  already has the result \<^verbatim>\<open>None\<close> (it has no id among the tasks; 0 is used).
\<close>

definition impossible_future :: future where
  "impossible_future = \<lparr>fut_id = 0, fut_state = Finished\<rparr>"

definition check_system_resources_limit :: "runner_env \<Rightarrow> 'r world \<Rightarrow> future option \<times> 'r world" where
  "check_system_resources_limit e w =
     (if curr_fds_open e > max_open_files_limit_soft e - 10 then
        (let limit_exception = MolerException (limit_msg e)
         in (Some impossible_future,
             locked (Set_exception limit_exception) (set_exception limit_exception) w))
      else (None, w))"

definition thread_secure_get_event_loop :: "runner_env \<Rightarrow> exc + bool" where
  "thread_secure_get_event_loop e =
     (case get_event_loop e of
        Has_loop \<Rightarrow> Inr False
      | No_current_loop \<Rightarrow> Inr True
      | Loop_failure msg \<Rightarrow> Inl (RuntimeError msg))"

text \<open>
  The sink \<^verbatim>\<open>secure_data_received\<close> that \<^verbatim>\<open>_start_feeding\<close> subscribes. The result is the
  exception that leaves the sink, if any, and the world after the call. The \<^verbatim>\<open>finally\<close>
  clause only writes to the log.
\<close>

definition secure_data_received ::
  "'r data_received \<Rightarrow> chunk \<Rightarrow> 'r world \<Rightarrow> exc option \<times> 'r world" where
  "secure_data_received data_received data w =
     (if observer_done (observer w) \<or> in_shutdown w then (None, w)
      else
        (let w1 = record_call (Data_received data) (w\<lparr>lock_held := True\<rparr>);
             (raised, ob) = data_received data (observer w1);
             w2 = w1\<lparr>observer := ob, lock_held := False\<rparr>
         in case raised of
              None \<Rightarrow> (None, w2)
            | Some exc \<Rightarrow> (None, locked (Set_exception exc) (set_exception exc) w2)))"

text \<open>\<^verbatim>\<open>_start_feeding\<close>: the result is the exception raised by sending, if any.\<close>

definition start_feeding :: "runner_env \<Rightarrow> 'r world \<Rightarrow> exc option \<times> 'r world" where
  "start_feeding e w =
     (let w1 = subscribe (new_sink e) w
      in if is_command (observer w1) then
           (case send_failure e of
              Some err \<Rightarrow> (Some err, w1)
            | None \<Rightarrow> (None, sendline (the (command_string (observer w1))) w1))
         else (None, w1))"

text \<open>
  The connection hands a chunk to the sink when the sink is subscribed. An exception that
  left the sink would reach the connection; it is the first component.
\<close>

definition deliver ::
  "'r data_received \<Rightarrow> sink \<Rightarrow> chunk \<Rightarrow> 'r world \<Rightarrow> exc option \<times> 'r world" where
  "deliver data_received s data w =
     (if s \<in> subscribers w then secure_data_received data_received data w else (None, w))"

text \<open>The connection delivers one chunk after the other.\<close>

fun deliver_all ::
  "'r data_received \<Rightarrow> sink \<Rightarrow> chunk list \<Rightarrow> 'r world \<Rightarrow> exc option \<times> 'r world" where
  "deliver_all data_received s [] w = (None, w)"
| "deliver_all data_received s (data # rest) w =
     (case deliver data_received s data w of
        (Some err, w1) \<Rightarrow> (Some err, w1)
      | (None, w1) \<Rightarrow> deliver_all data_received s rest w1)"

text \<open>
  One round of the \<^verbatim>\<open>while True\<close> loop of \<^verbatim>\<open>feed\<close>, entered when \<^verbatim>\<open>time.time()\<close> reads
  \<open>now\<close>; \<open>start\<close> is the \<^verbatim>\<open>start_time\<close> that \<^verbatim>\<open>feed\<close> read before the loop.
\<close>

datatype loop_ctl = Break | Continue

definition feed_round :: "real \<Rightarrow> real \<Rightarrow> 'r world \<Rightarrow> loop_ctl \<times> 'r world" where
  "feed_round start now w =
     (if observer_done (observer w) then (Break, w)
      else
        (let run_duration = now - start
         in if timeout (observer w) \<noteq> None \<and> run_duration \<ge> the (timeout (observer w)) then
              (Break, locked Time_out_observer
                        (\<lambda>ob. time_out_observer ob (timeout ob) run_duration None) w)
            else if in_shutdown w then (Continue, unlocked Observer_cancel observer_cancel w)
            else (Continue, w)))"

text \<open>
  \<^verbatim>\<open>feed\<close> gives control back at every \<^verbatim>\<open>await asyncio.sleep(0.005)\<close>. What happens in
  the meantime is a list of events: the sleep ends and a round of the loop runs at the
  given time; the connection delivers a chunk at the given time (no code reads the clock
  then); domain code sets the observer's \<^verbatim>\<open>timeout\<close>; \<^verbatim>\<open>shutdown()\<close> is called on the
  runner; the task is cancelled.
\<close>

datatype event =
    Tick real
  | Chunk real chunk
  | Set_timeout "real option"
  | Shutdown
  | Task_cancel

datatype feed_result = Feed_returned | Feed_cancelled | Feed_pending

fun feed_rounds ::
  "'r data_received \<Rightarrow> sink \<Rightarrow> real \<Rightarrow> event list \<Rightarrow> 'r world \<Rightarrow> feed_result \<times> 'r world" where
  "feed_rounds data_received s start [] w = (Feed_pending, w)"
| "feed_rounds data_received s start (Tick now # evs) w =
     (case feed_round start now w of
        (Break, w1) \<Rightarrow> (Feed_returned, unsubscribe s w1)
      | (Continue, w1) \<Rightarrow> feed_rounds data_received s start evs w1)"
| "feed_rounds data_received s start (Chunk now data # evs) w =
     feed_rounds data_received s start evs (snd (deliver data_received s data w))"
| "feed_rounds data_received s start (Set_timeout t # evs) w =
     feed_rounds data_received s start evs (w\<lparr>observer := (observer w)\<lparr>timeout := t\<rparr>\<rparr>)"
| "feed_rounds data_received s start (Shutdown # evs) w =
     feed_rounds data_received s start evs (w\<lparr>in_shutdown := True\<rparr>)"
| "feed_rounds data_received s start (Task_cancel # evs) w = (Feed_cancelled, unsubscribe s w)"

text \<open>
  \<^verbatim>\<open>feed\<close> for a sink that \<^verbatim>\<open>submit\<close> has subscribed already. No event changes
  \<^verbatim>\<open>start_time\<close>, so the value read after the first sleep is the one at entry.
\<close>

definition feed ::
  "'r data_received \<Rightarrow> sink \<Rightarrow> event list \<Rightarrow> 'r world \<Rightarrow> feed_result \<times> 'r world" where
  "feed data_received s evs w = feed_rounds data_received s (start_time (observer w)) evs w"

text \<open>
  \<^verbatim>\<open>AsyncioRunner.submit\<close>. The result is the exception raised or the future returned.
  \<^verbatim>\<open>his_remaining_time\<close> (not among the sources) only feeds the log here.
\<close>

definition AsyncioRunner_submit :: "runner_env \<Rightarrow> 'r world \<Rightarrow> (exc + future) \<times> 'r world" where
  "AsyncioRunner_submit e w =
     (case check_system_resources_limit e w of
        (Some impossible, w1) \<Rightarrow> (Inr impossible, w1)
      | (None, w1) \<Rightarrow>
          if \<not> start_time (observer w1) > 0 then (Inl AssertionError, w1)
          else
            (case thread_secure_get_event_loop e of
               Inl err \<Rightarrow> (Inl err, w1)
             | Inr its_new \<Rightarrow>
                 (let w2 = (if its_new then w1\<lparr>started_ev_loops := started_ev_loops w1 + 1\<rparr>
                            else w1)
                  in case start_feeding e w2 of
                       (Some err, w3) \<Rightarrow> (Inl err, w3)
                     | (None, w3) \<Rightarrow>
                         (let connection_observer_future = ensured_future e
                          in if future_done connection_observer_future
                                \<and> future_result connection_observer_future \<noteq> None
                             then (Inl (the (future_result connection_observer_future)), w3)
                             else (Inr connection_observer_future,
                                   w3\<lparr>submitted_futures := submitted_futures w3
                                          @ [fut_id connection_observer_future]\<rparr>)))))"

text \<open>
  \<^verbatim>\<open>_run_until_complete\<close> after \<^verbatim>\<open>run_forever()\<close> has come back: \<open>awaited\<close> is the state of
  the future that was run, which must be done by then.
\<close>

definition run_until_complete_result :: "fut_state \<Rightarrow> exc option" where
  "run_until_complete_result awaited =
     (case awaited of
        Pending \<Rightarrow> Some (RuntimeError ''Event loop stopped before Future completed.'')
      | Finished \<Rightarrow> None
      | Raised err \<Rightarrow> Some err
      | Fut_cancelled \<Rightarrow> Some CancelledError)"

text \<open>Python's truth value of the \<^verbatim>\<open>timeout\<close> argument: \<^verbatim>\<open>None\<close> and 0 are false.\<close>

fun truthy :: "real option \<Rightarrow> bool" where
  "truthy None = False"
| "truthy (Some t) = (t \<noteq> 0)"

text \<open>
  What happens while \<^verbatim>\<open>run_forever()\<close> runs the loop is a parameter: from the world and
  the observer's future at the call, and whether the future is wrapped in
  \<^verbatim>\<open>asyncio.wait_for\<close>, it gives the world and the observer's future when the loop stops,
  and the state of the wrapping future then (\<open>Raised TimeoutError\<close> when the timeout fired).
\<close>

type_synonym 'r run_forever = "'r world \<Rightarrow> future \<Rightarrow> bool \<Rightarrow> 'r world \<times> future \<times> fut_state"

definition run_via_asyncio ::
  "'r run_forever \<Rightarrow> 'r world \<Rightarrow> future \<Rightarrow> real option \<Rightarrow> exc option \<times> 'r world \<times> future" where
  "run_via_asyncio run w connection_observer_future max_timeout =
     (if truthy max_timeout then
        (case run w connection_observer_future True of
           (w1, fut1, timeout_limited_future) \<Rightarrow>
             (run_until_complete_result timeout_limited_future, w1, fut1))
      else
        (case run w connection_observer_future False of
           (w1, fut1, unused) \<Rightarrow> (run_until_complete_result (fut_state fut1), w1, fut1)))"

text \<open>
  \<^verbatim>\<open>_raise_wrong_usage_of_wait_for\<close>: the name of the user's call is read from the stack
  (\<^verbatim>\<open>await_done\<close> when the caller's caller is that, the caller's name otherwise), the
  class name from the observer; both are given.
\<close>

definition wrong_usage_msg :: "string \<Rightarrow> string \<Rightarrow> string" where
  "wrong_usage_msg user_call_name class_name =
     ''Can't call '' @ user_call_name @ ''() from 'async def' - it is blocking call''
     @ [CHR 0x0A] @ ''    observer = '' @ class_name @ ''()''
     @ [CHR 0x0A] @ ''    observer.start()''
     @ [CHR 0x0A] @ ''consider using:''
     @ [CHR 0x0A] @ ''    await observer''
     @ [CHR 0x0A] @ ''instead of:''
     @ [CHR 0x0A] @ ''    observer.await_done()''"

text \<open>
  Who calls \<^verbatim>\<open>wait_for\<close>: the names for the message above and whether the calling thread is
  the main thread.
\<close>

record caller =
  user_call_name :: string
  class_name :: string
  in_main_thread :: bool

text \<open>
  Modelled from the spec: the context manager \<^verbatim>\<open>exception_stored_if_not_main_thread\<close> of
  \<^verbatim>\<open>moler.util.connection_observer\<close> is not among the sources, and the spec does not speak
  of it. The model follows its name: an exception that leaves the block is raised on in
  the main thread and stored in the observer in any other thread.
\<close>

definition exception_stored_if_not_main_thread ::
  "caller \<Rightarrow> exc option \<Rightarrow> 'r world \<Rightarrow> exc option \<times> 'r world" where
  "exception_stored_if_not_main_thread c raised w =
     (case raised of
        None \<Rightarrow> (None, w)
      | Some err \<Rightarrow>
          if in_main_thread c then (Some err, w)
          else (None, unlocked (Set_exception err) (set_exception err) w))"

text \<open>
  \<^verbatim>\<open>AsyncioRunner.wait_for\<close>. The result is the exception raised, if any, the world and the
  observer's future after the call. The future comes from \<^verbatim>\<open>submit\<close> and carries the
  observer's lock.
\<close>

definition AsyncioRunner_wait_for ::
  "runner_env \<Rightarrow> caller \<Rightarrow> 'r run_forever \<Rightarrow> 'r world \<Rightarrow> future \<Rightarrow> real option
     \<Rightarrow> exc option \<times> 'r world \<times> future" where
  "AsyncioRunner_wait_for e c run w connection_observer_future wait_timeout =
     (if observer_done (observer w) then
        (if \<not> future_done connection_observer_future then
           (None, record_call Future_cancel w, future_cancel connection_observer_future)
         else (None, w, connection_observer_future))
      else
        (case thread_secure_get_event_loop e of
           Inl err \<Rightarrow> (Some err, w, connection_observer_future)
         | Inr its_new \<Rightarrow>
             if its_new then (Some AssertionError, w, connection_observer_future)
             else
               (case (if loop_is_running e then
                        (Some (WrongUsage (wrong_usage_msg (user_call_name c) (class_name c))),
                         w, connection_observer_future)
                      else run_via_asyncio run w connection_observer_future wait_timeout) of
                  (raised, w1, fut1) \<Rightarrow>
                    (let handled =
                           (case raised of
                              Some CancelledError \<Rightarrow>
                                (None, unlocked Observer_cancel observer_cancel w1)
                            | Some TimeoutError \<Rightarrow>
                                (let passed = time_time e - start_time (observer w1);
                                     fired_timeout = (if truthy wait_timeout then wait_timeout
                                                      else timeout (observer w1))
                                 in (None, locked Time_out_observer
                                             (\<lambda>ob. time_out_observer ob fired_timeout passed
                                                      (Some ''await_done'')) w1))
                            | other \<Rightarrow> (other, w1));
                         w2 = record_call Future_cancel (snd handled);
                         w3 = w2\<lparr>submitted_futures :=
                                    remove1 (fut_id fut1) (submitted_futures w2)\<rparr>
                     in case exception_stored_if_not_main_thread c (fst handled) w3 of
                          (escaped, w4) \<Rightarrow> (escaped, w4, future_cancel fut1)))))"

section \<open>The runner with a dedicated loop thread\<close>

text \<open>
  How Python binds the arguments of a call to the parameters of a function without
  defaults (the parameters after \<^verbatim>\<open>self\<close>): \<open>n\<close> positional arguments fill the first \<open>n\<close>
  parameters, every keyword must name a parameter that is not filled yet, and no parameter
  may stay empty. The result is the \<^verbatim>\<open>TypeError\<close> of the call, if any.
\<close>

definition bind_arguments :: "string \<Rightarrow> string list \<Rightarrow> nat \<Rightarrow> string list \<Rightarrow> exc option" where
  "bind_arguments fname params n keywords =
     (if n > length params then
        Some (TypeError (fname @ ''() takes '' @ str_nat (length params + 1)
               @ '' positional arguments but '' @ str_nat (n + 1) @ '' were given''))
      else case find (\<lambda>k. k \<in> set (take n params)) keywords of
          Some k \<Rightarrow> Some (TypeError (fname @ ''() got multiple values for argument '' @ quoted k))
        | None \<Rightarrow>
            (case find (\<lambda>k. k \<notin> set params) keywords of
               Some k \<Rightarrow>
                 Some (TypeError (fname @ ''() got an unexpected keyword argument '' @ quoted k))
             | None \<Rightarrow>
                 (case find (\<lambda>p. p \<notin> set keywords) (drop n params) of
                    Some p \<Rightarrow>
                      Some (TypeError (fname @ ''() missing 1 required positional argument: ''
                              @ quoted p))
                  | None \<Rightarrow> None)))"

text \<open>The parameters of \<^verbatim>\<open>AsyncioRunner.feed\<close>, which \<^verbatim>\<open>AsyncioInThreadRunner\<close> inherits.\<close>

definition feed_parameters :: "string list" where
  "feed_parameters = [''connection_observer'', ''subscribed_data_receiver'', ''observer_lock'']"

text \<open>A coroutine handed to the loop thread returns a value, raises, or never finishes.\<close>

datatype 'a coro = Coro_returns 'a | Coro_raises exc | Coro_blocks

text \<open>
  The coroutine \<^verbatim>\<open>start_feeder\<close> of \<^verbatim>\<open>AsyncioInThreadRunner.submit\<close>. It calls
  \<^verbatim>\<open>self.feed(connection_observer, feed_started, subscribed_data_receiver=None)\<close>, two
  positional arguments and one keyword, and then waits for the event \<^verbatim>\<open>feed_started\<close>,
  which no code of the module sets.
\<close>

definition start_feeder :: "future coro" where
  "start_feeder =
     (case bind_arguments ''feed'' feed_parameters 2 [''subscribed_data_receiver''] of
        Some err \<Rightarrow> Coro_raises err
      | None \<Rightarrow> Coro_blocks)"

text \<open>
  The loop thread: \<^verbatim>\<open>get_asyncio_loop_thread\<close> raises when a new thread does not start in
  time; a thread that is there runs a coroutine before the caller's timeout or not;
  \<open>waited\<close> is the time that \<^verbatim>\<open>run_async_coroutine\<close> measures when its wait times out.
\<close>

record loop_thread =
  thread_starts :: bool
  thread_responsive :: bool
  waited :: real

definition get_asyncio_loop_thread :: "loop_thread \<Rightarrow> exc option" where
  "get_asyncio_loop_thread t =
     (if thread_starts t then None
      else Some (MolerException ''Failed to start asyncio loop thread within 0.5 sec''))"

text \<open>
  \<^verbatim>\<open>AsyncioLoopThread.run_async_coroutine\<close>: \<open>None\<close> when the call never comes back (no
  timeout and a coroutine that does not finish), the exception raised or the value
  returned otherwise.
\<close>

definition run_async_coroutine ::
  "loop_thread \<Rightarrow> string \<Rightarrow> 'a coro \<Rightarrow> real option \<Rightarrow> (exc + 'a) option" where
  "run_async_coroutine t coro_name coroutine_to_run tmo =
     (let timed_out =
            (case tmo of
               None \<Rightarrow> None
             | Some limit \<Rightarrow>
                 Some (Inl (MolerTimeout tmo
                              (Some (''run_async_coroutine('' @ coro_name @ '')'')) (waited t))))
      in if thread_responsive t then
           (case coroutine_to_run of
              Coro_returns v \<Rightarrow> Some (Inr v)
            | Coro_raises err \<Rightarrow> Some (Inl err)
            | Coro_blocks \<Rightarrow> timed_out)
         else timed_out)"

text \<open>
  \<^verbatim>\<open>AsyncioInThreadRunner.submit\<close>: \<open>None\<close> when the call never comes back; otherwise the
  exception raised or the value returned, which is a future or \<^verbatim>\<open>None\<close>.
\<close>

definition AsyncioInThreadRunner_submit ::
  "loop_thread \<Rightarrow> 'r world \<Rightarrow> (exc + future option) option \<times> 'r world" where
  "AsyncioInThreadRunner_submit t w =
     (case get_asyncio_loop_thread t of
        Some err \<Rightarrow> (Some (Inl err), w)
      | None \<Rightarrow>
          (let start_timeout = 0.5
           in case run_async_coroutine t ''start_feeder'' start_feeder (Some start_timeout) of
                None \<Rightarrow> (None, w)
              | Some (Inr connection_observer_future) \<Rightarrow>
                  (Some (Inr (Some connection_observer_future)), w)
              | Some (Inl (MolerTimeout a b c)) \<Rightarrow>
                  (let err_msg = ''Failed to start observer feeder within 0.5 sec'';
                       exc = MolerException err_msg
                   in (Some (Inr None), unlocked (Set_exception exc) (set_exception exc) w))
              | Some (Inl err) \<Rightarrow> (Some (Inl err), w)))"

text \<open>
  What the loop thread has done with the observer and its future when the caller's wait
  ends is a parameter. The coroutine \<^verbatim>\<open>wait_for_connection_observer_done\<close> awaits the
  future.
\<close>

type_synonym 'r background = "'r world \<Rightarrow> future \<Rightarrow> 'r world \<times> future"

definition wait_for_connection_observer_done :: "future \<Rightarrow> unit coro" where
  "wait_for_connection_observer_done f =
     (case fut_state f of
        Pending \<Rightarrow> Coro_blocks
      | Finished \<Rightarrow> Coro_returns ()
      | Raised err \<Rightarrow> Coro_raises err
      | Fut_cancelled \<Rightarrow> Coro_raises CancelledError)"

text \<open>
  \<^verbatim>\<open>AsyncioInThreadRunner.wait_for\<close>: \<open>None\<close> when the call never comes back; otherwise the
  exception raised, if any. The \<^verbatim>\<open>finally\<close> clause has a pending future cancelled.
\<close>

definition AsyncioInThreadRunner_wait_for ::
  "runner_env \<Rightarrow> caller \<Rightarrow> loop_thread \<Rightarrow> 'r background \<Rightarrow> 'r world \<Rightarrow> future \<Rightarrow> real option
     \<Rightarrow> exc option option \<times> 'r world \<times> future" where
  "AsyncioInThreadRunner_wait_for e c t bg w connection_observer_future wait_timeout =
     (if observer_done (observer w) then (Some None, w, connection_observer_future)
      else
        (case get_asyncio_loop_thread t of
           Some err \<Rightarrow> (Some (Some err), w, connection_observer_future)
         | None \<Rightarrow>
             (case (case thread_secure_get_event_loop e of
                      Inl err \<Rightarrow> (Some (Inl err), w, connection_observer_future)
                    | Inr its_new \<Rightarrow>
                        if loop_is_running e then
                          (Some (Inl (WrongUsage
                                   (wrong_usage_msg (user_call_name c) (class_name c)))),
                           w, connection_observer_future)
                        else
                          (case bg w connection_observer_future of
                             (w1, fut1) \<Rightarrow>
                               (run_async_coroutine t ''wait_for_connection_observer_done''
                                  (wait_for_connection_observer_done fut1) wait_timeout,
                                w1, fut1))) of
                (None, w1, fut1) \<Rightarrow> (None, w1, fut1)
              | (Some outcome, w1, fut1) \<Rightarrow>
                  (let fut2 = (if \<not> future_done fut1 then future_cancel fut1 else fut1);
                       w2 = (if \<not> future_done fut1 then record_call Future_cancel w1 else w1)
                   in case outcome of
                        Inr u \<Rightarrow> (Some None, w2, fut2)
                      | Inl (MolerTimeout a b d) \<Rightarrow>
                          (let passed = waited t;
                               fired_timeout = (if truthy wait_timeout then wait_timeout
                                                else timeout (observer w2))
                           in (Some None,
                               unlocked Time_out_observer
                                 (\<lambda>ob. time_out_observer ob fired_timeout passed
                                          (Some ''await_done'')) w2,
                               fut2))
                      | Inl CancelledError \<Rightarrow>
                          (Some None, unlocked Observer_cancel observer_cancel w2, fut2)
                      | Inl err \<Rightarrow>
                          (Some None,
                           (if observer_exception (observer w2) \<noteq> Some err then
                              unlocked (Set_exception err) (set_exception err) w2
                            else w2),
                           fut2)))))"

section \<open>Examples\<close>

text \<open>
  An observer that was started at time 1 with a timeout of 2 seconds, domain code that
  ignores every chunk, a world in which nothing has happened yet, and an environment with
  90 of 100 descriptors open, a loop that is not running and a task that is pending.
  Domain code that takes the length of the first chunk as its result, and domain code
  that raises on every chunk. A run of the loop that ends with the timeout of
  \<^verbatim>\<open>asyncio.wait_for\<close> and leaves everything else as it was. A caller in the main thread.
  A loop thread that does not get to the coroutine in time, and one that does. A
  background in which nothing happens.
\<close>

definition idle :: "nat data_received" where
  "idle data ob = (None, ob)"

definition started_observer :: "nat observer" where
  "started_observer =
     \<lparr>start_time = 1, timeout = Some 2, state = Running, command_string = None\<rparr>"

definition world0 :: "nat world" where
  "world0 = \<lparr>observer = started_observer, lock_held = False, in_shutdown = False,
             started_ev_loops = 0, submitted_futures = [], subscribers = {},
             outbound = [], trace = []\<rparr>"

definition quiet_env :: runner_env where
  "quiet_env = \<lparr>curr_fds_open = 90, curr_threads_nb = 3, max_open_files_limit_soft = 100,
                 get_event_loop = Has_loop, loop_is_running = False,
                 ensured_future = \<lparr>fut_id = 1, fut_state = Pending\<rparr>,
                 new_sink = 7, send_failure = None, time_time = 5\<rparr>"

definition greedy :: "nat data_received" where
  "greedy data ob = (None, set_result (length data) ob)"

definition faulty :: "nat data_received" where
  "faulty data ob = (Some (OtherError data), ob)"

definition timed_out_run :: "nat run_forever" where
  "timed_out_run w f wrapped = (w, f, if wrapped then Raised TimeoutError else fut_state f)"

definition user :: caller where
  "user = \<lparr>user_call_name = ''await_done'', class_name = ''Attach'', in_main_thread = True\<rparr>"

definition busy_thread :: loop_thread where
  "busy_thread = \<lparr>thread_starts = True, thread_responsive = False, waited = 0.5\<rparr>"

definition ready_thread :: loop_thread where
  "ready_thread = \<lparr>thread_starts = True, thread_responsive = True, waited = 0\<rparr>"

definition still :: "nat background" where
  "still w f = (w, f)"

section \<open>Properties of configuration loading\<close>

lemma deep_equal_refl: "deep_equal c c"
  by (cases c) (simp_all add: dict_equal_def)

lemma compare_objects_empty_iff: "compare_objects a b = [] \<longleftrightarrow> deep_equal a b"
  by (simp add: compare_objects_def)

lemma configs_are_same_iff: "configs_are_same cs c \<longleftrightarrow> (\<exists>x \<in> set cs. deep_equal x c)"
  by (induction cs) (auto simp: compare_objects_empty_iff)

lemma configs_are_same_member:
  "c \<in> set cs \<Longrightarrow> compare_objects c c2 = [] \<Longrightarrow> configs_are_same cs c2"
  by (auto simp: configs_are_same_iff compare_objects_empty_iff)

text \<open>
  A call that raises has recorded its argument: as the only entry when nothing counted as
  loaded before, as the last entry otherwise.
\<close>

lemma load_config_raise_state:
  assumes "load_config env st config from_env_var config_type = (Some e, st')"
  shows "config \<in> set (loaded_config st')
     \<and> (loaded_config st' = [config]
        \<or> (NOT_LOADED_YET \<notin> set (loaded_config st)
            \<and> loaded_config st' = loaded_config st @ [config]))"
  using assms
  by (auto simp: load_config_def run_loader_def Let_def
           split: sum.splits option.splits config.splits if_splits prod.splits)



text \<open>
  Claim C10. \<^verbatim>\<open>load_config\<close> records its argument in \<^verbatim>\<open>loaded_config\<close> before it checks
  \<^verbatim>\<open>config_type\<close> or reads the file. When a call raises without having called any loader
  (the configuration was never applied), the argument is the last entry of
  \<^verbatim>\<open>loaded_config\<close>, and a later call with a deep-equal configuration, whatever its other
  arguments, returns at once as a reload of the same configuration. The configuration is
  any but the string \<^verbatim>\<open>"NOT_LOADED_YET"\<close>, which is the marker of the state in which
  nothing is loaded.
\<close>

theorem load_config_not_atomic:
  assumes "load_config env st config from_env_var config_type = (Some e, st')"
    and "calls st' = calls st"
    and "config \<noteq> NOT_LOADED_YET"
    and "compare_objects config config2 = []"
  shows "last (loaded_config st') = config
       \<and> load_config env2 st' config2 from_env_var2 config_type2 = (None, st')"
proof -
  from load_config_raise_state [OF assms(1)]
  have mem: "config \<in> set (loaded_config st')"
    and shape: "loaded_config st' = [config]
       \<or> (NOT_LOADED_YET \<notin> set (loaded_config st)
           \<and> loaded_config st' = loaded_config st @ [config])"
    by simp_all
  from shape assms(3) have fresh: "NOT_LOADED_YET \<notin> set (loaded_config st')" by auto
  from shape have l: "last (loaded_config st') = config" by auto
  from mem assms(4) have "configs_are_same (loaded_config st') config2"
    by (rule configs_are_same_member)
  with fresh have "load_config env2 st' config2 from_env_var2 config_type2 = (None, st')"
    by (simp add: load_config_def)
  with l show ?thesis by simp
qed

theorem load_config_not_atomic_witness:
  "load_config posix_env initial_cfg_state (ConfigStr ''conf/a.yml'') None ''yaml''
     = (Some (MolerException
               (''Loading configuration requires absolute path and not '' @ quoted ''conf/a.yml'')),
        \<lparr>loaded_config = [ConfigStr ''conf/a.yml''], calls = []\<rparr>)
   \<and> calls \<lparr>loaded_config = [ConfigStr ''conf/a.yml'' :: nat config], calls = []\<rparr>
       = calls (initial_cfg_state :: nat cfg_state)
   \<and> ConfigStr ''conf/a.yml'' \<noteq> (NOT_LOADED_YET :: nat config)
   \<and> compare_objects (ConfigStr ''conf/a.yml'' :: nat config) (ConfigStr ''conf/a.yml'') = []
   \<and> load_config posix_env \<lparr>loaded_config = [ConfigStr ''conf/a.yml''], calls = []\<rparr>
        (ConfigStr ''conf/a.yml'') (Some ''MOLER_CONFIG'') ''dict''
     = (None, \<lparr>loaded_config = [ConfigStr ''conf/a.yml''], calls = []\<rparr>)"
proof -
  have raised: "load_config posix_env initial_cfg_state (ConfigStr ''conf/a.yml'') None ''yaml''
     = (Some (MolerException
               (''Loading configuration requires absolute path and not '' @ quoted ''conf/a.yml'')),
        \<lparr>loaded_config = [ConfigStr ''conf/a.yml''], calls = []\<rparr>)"
    by (simp add: load_config_def initial_cfg_state_def NOT_LOADED_YET_def posix_env_def
          read_yaml_configfile_def)
  have untouched: "calls \<lparr>loaded_config = [ConfigStr ''conf/a.yml'' :: nat config], calls = []\<rparr>
       = calls (initial_cfg_state :: nat cfg_state)"
    by (simp add: initial_cfg_state_def)
  have other: "ConfigStr ''conf/a.yml'' \<noteq> (NOT_LOADED_YET :: nat config)"
    by (simp add: NOT_LOADED_YET_def)
  have equal: "compare_objects (ConfigStr ''conf/a.yml'' :: nat config) (ConfigStr ''conf/a.yml'') = []"
    by (simp add: compare_objects_def)
  from load_config_not_atomic [OF raised untouched other equal,
         of posix_env "Some ''MOLER_CONFIG''" "''dict''"]
  show ?thesis using raised untouched other equal by simp
qed

section \<open>Properties of the runner\<close>

lemma observer_done_set_exception [simp]: "observer_done (set_exception err ob)"
  by (simp add: set_exception_def observer_done_def)

lemma set_exception_not_done:
  "\<not> observer_done ob \<Longrightarrow> state (set_exception err ob) = Failed err"
  by (simp add: set_exception_def)

lemma set_exception_done: "observer_done ob \<Longrightarrow> set_exception err ob = ob"
  by (simp add: set_exception_def)

lemma locked_simps [simp]:
  "observer (locked c f w) = f (observer w)"
  "trace (locked c f w) = trace w @ [(c, True)]"
  "lock_held (locked c f w) = False"
  "subscribers (locked c f w) = subscribers w"
  "outbound (locked c f w) = outbound w"
  "in_shutdown (locked c f w) = in_shutdown w"
  "submitted_futures (locked c f w) = submitted_futures w"
  by (simp_all add: locked_def record_call_def Let_def)

lemma unlocked_simps [simp]:
  "observer (unlocked c f w) = f (observer w)"
  "trace (unlocked c f w) = trace w @ [(c, lock_held w)]"
  "lock_held (unlocked c f w) = lock_held w"
  "subscribers (unlocked c f w) = subscribers w"
  "outbound (unlocked c f w) = outbound w"
  "in_shutdown (unlocked c f w) = in_shutdown w"
  "submitted_futures (unlocked c f w) = submitted_futures w"
  by (simp_all add: unlocked_def record_call_def Let_def)

lemma unsubscribe_simps [simp]:
  "observer (unsubscribe s w) = observer w"
  "trace (unsubscribe s w) = trace w"
  "subscribers (unsubscribe s w) = subscribers w - {s}"
  by (simp_all add: unsubscribe_def)

subsection \<open>The deadline\<close>

lemma feed_round_timeout:
  assumes "\<not> observer_done (observer w)" and "timeout (observer w) = Some t"
    and "t \<le> now - start"
  shows "feed_round start now w
       = (Break, locked Time_out_observer
                   (\<lambda>ob. time_out_observer ob (timeout ob) (now - start) None) w)"
  using assms by (simp add: feed_round_def Let_def)

lemma feed_round_early:
  assumes "\<not> observer_done (observer w)" and "timeout (observer w) = Some t"
    and "now - start < t" and "\<not> in_shutdown w"
  shows "feed_round start now w = (Continue, w)"
  using assms by (simp add: feed_round_def Let_def)

text \<open>
  Claim C1, as stated, fails: the deadline is not checked when \<^verbatim>\<open>data_received\<close> returns.
  The observer of the example was started at time 1 with a timeout of 2. A round of the
  loop at time 2 leaves it running; a chunk delivered at time 10, when 9 seconds have
  passed, is handed to \<^verbatim>\<open>data_received\<close> and the observer is still running afterwards,
  not failed with a Timeout.
\<close>

theorem feed_return_no_deadline_check:
  "feed idle 7 [Tick 2, Chunk 10 ''data''] (subscribe 7 world0)
     = (Feed_pending, (subscribe 7 world0)\<lparr>trace := [(Data_received ''data'', True)]\<rparr>)
   \<and> state (observer (snd (feed idle 7 [Tick 2, Chunk 10 ''data''] (subscribe 7 world0))))
       = Running"
  by (simp add: feed_def world0_def started_observer_def subscribe_def feed_round_def
        observer_done_def deliver_def secure_data_received_def record_call_def idle_def)

text \<open>
  Claim C1, amended. For an observer that is not done, every round of the loop of \<^verbatim>\<open>feed\<close>
  (every progress tick) compares the time passed since \<^verbatim>\<open>start_time\<close> with the observer's
  current \<^verbatim>\<open>timeout\<close>: when the time passed has reached it, the round puts the observer
  into the failed state with a Timeout under the observer lock, ends the loop and
  unsubscribes the sink. The value is the one the observer has at that round: after the
  timeout was set to \<open>t'\<close>, the next round decides with \<open>t'\<close>. A round before the deadline
  (and outside shutdown) changes nothing. Nothing is said about the return of
  \<^verbatim>\<open>data_received\<close>, where no deadline is checked.
\<close>

theorem feed_checks_deadline_each_tick:
  assumes "\<not> observer_done (observer w)"
  shows "(timeout (observer w) = Some t \<and> t \<le> now - start \<longrightarrow>
           (\<exists>w'. feed_rounds dr s start (Tick now # evs) w = (Feed_returned, w')
              \<and> state (observer w') = Failed (MolerTimeout (Some t) None (now - start))
              \<and> trace w' = trace w @ [(Time_out_observer, True)]
              \<and> s \<notin> subscribers w'))
       \<and> (t' \<le> now - start \<longrightarrow>
           (\<exists>w'. feed_rounds dr s start (Set_timeout (Some t') # Tick now # evs) w
                    = (Feed_returned, w')
              \<and> state (observer w') = Failed (MolerTimeout (Some t') None (now - start))
              \<and> trace w' = trace w @ [(Time_out_observer, True)]
              \<and> s \<notin> subscribers w'))
       \<and> (timeout (observer w) = Some t \<and> now - start < t \<and> \<not> in_shutdown w \<longrightarrow>
           feed_rounds dr s start (Tick now # evs) w = feed_rounds dr s start evs w)"
proof (intro conjI impI)
  assume a: "timeout (observer w) = Some t \<and> t \<le> now - start"
  with assms have "feed_round start now w
       = (Break, locked Time_out_observer
                   (\<lambda>ob. time_out_observer ob (timeout ob) (now - start) None) w)"
    by (simp add: feed_round_timeout)
  with a assms show "\<exists>w'. feed_rounds dr s start (Tick now # evs) w = (Feed_returned, w')
              \<and> state (observer w') = Failed (MolerTimeout (Some t) None (now - start))
              \<and> trace w' = trace w @ [(Time_out_observer, True)]
              \<and> s \<notin> subscribers w'"
    by (simp add: time_out_observer_def set_exception_not_done)
next
  assume a: "t' \<le> now - start"
  let ?w = "w\<lparr>observer := (observer w)\<lparr>timeout := Some t'\<rparr>\<rparr>"
  from assms have nd: "\<not> observer_done (observer ?w)" by (simp add: observer_done_def)
  have tm: "timeout (observer ?w) = Some t'" by simp
  from feed_round_timeout [OF nd tm a]
  have "feed_round start now ?w
       = (Break, locked Time_out_observer
                   (\<lambda>ob. time_out_observer ob (timeout ob) (now - start) None) ?w)" .
  with nd show "\<exists>w'. feed_rounds dr s start (Set_timeout (Some t') # Tick now # evs) w
                        = (Feed_returned, w')
              \<and> state (observer w') = Failed (MolerTimeout (Some t') None (now - start))
              \<and> trace w' = trace w @ [(Time_out_observer, True)]
              \<and> s \<notin> subscribers w'"
    by (simp add: time_out_observer_def set_exception_not_done)
next
  assume "timeout (observer w) = Some t \<and> now - start < t \<and> \<not> in_shutdown w"
  with assms show "feed_rounds dr s start (Tick now # evs) w = feed_rounds dr s start evs w"
    by (simp add: feed_round_early)
qed

theorem feed_checks_deadline_each_tick_witness:
  "\<not> observer_done (observer (subscribe 7 world0))
   \<and> fst (feed_rounds idle 7 1 [Tick 3.5] (subscribe 7 world0)) = Feed_returned
   \<and> state (observer (snd (feed_rounds idle 7 1 [Tick 3.5] (subscribe 7 world0))))
       = Failed (MolerTimeout (Some 2) None 2.5)
   \<and> state (observer (snd (feed_rounds idle 7 1 [Set_timeout (Some 1.5), Tick 2.75]
                             (subscribe 7 world0))))
       = Failed (MolerTimeout (Some 1.5) None 1.75)
   \<and> feed_rounds idle 7 1 [Tick 2.5] (subscribe 7 world0) = (Feed_pending, subscribe 7 world0)"
proof -
  have nd: "\<not> observer_done (observer (subscribe 7 world0))"
    by (simp add: world0_def started_observer_def subscribe_def observer_done_def)
  have tm: "timeout (observer (subscribe 7 world0)) = Some 2"
    by (simp add: world0_def started_observer_def subscribe_def)
  have sh: "\<not> in_shutdown (subscribe 7 world0)"
    by (simp add: world0_def subscribe_def)
  note th = feed_checks_deadline_each_tick [OF nd, where dr = idle and s = 7 and start = 1
              and evs = "[]"]
  from th [where t = 2 and now = "3.5" and t' = 0] tm
  have "\<exists>w'. feed_rounds idle 7 1 [Tick 3.5] (subscribe 7 world0) = (Feed_returned, w')
            \<and> state (observer w') = Failed (MolerTimeout (Some 2) None (3.5 - 1))"
    by auto
  moreover from th [where t = 2 and now = "2.75" and t' = "1.5"]
  have "\<exists>w'. feed_rounds idle 7 1 [Set_timeout (Some 1.5), Tick 2.75] (subscribe 7 world0)
              = (Feed_returned, w')
            \<and> state (observer w') = Failed (MolerTimeout (Some 1.5) None (2.75 - 1))"
    by auto
  moreover from th [where t = 2 and now = "2.5" and t' = 5] tm sh
  have "feed_rounds idle 7 1 [Tick 2.5] (subscribe 7 world0)
           = feed_rounds idle 7 1 [] (subscribe 7 world0)"
    by auto
  ultimately show ?thesis using nd by auto
qed

subsection \<open>The resource ceiling\<close>

lemma check_limit_refuses:
  assumes "curr_fds_open e > max_open_files_limit_soft e - 10"
  shows "check_system_resources_limit e w
       = (Some impossible_future,
          locked (Set_exception (MolerException (limit_msg e)))
                 (set_exception (MolerException (limit_msg e))) w)"
  using assms by (simp add: check_system_resources_limit_def Let_def)

lemma check_limit_admits:
  assumes "\<not> curr_fds_open e > max_open_files_limit_soft e - 10"
  shows "check_system_resources_limit e w = (None, w)"
  using assms by (simp add: check_system_resources_limit_def)

text \<open>
  Claim C2, as stated, fails at the edge of the margin. With a soft limit of 100 and 90
  descriptors open, exactly 10 below the limit, \<^verbatim>\<open>AsyncioRunner.submit\<close> admits the
  observer: it returns the pending task, the sink is subscribed and the observer is still
  running.
\<close>

theorem submit_admits_at_margin:
  "curr_fds_open quiet_env = max_open_files_limit_soft quiet_env - 10
   \<and> AsyncioRunner_submit quiet_env world0
     = (Inr \<lparr>fut_id = 1, fut_state = Pending\<rparr>,
        world0\<lparr>submitted_futures := [1], subscribers := {7}\<rparr>)
   \<and> state (observer (snd (AsyncioRunner_submit quiet_env world0))) = Running"
  by (simp add: AsyncioRunner_submit_def check_system_resources_limit_def quiet_env_def
        world0_def started_observer_def thread_secure_get_event_loop_def start_feeding_def
        subscribe_def is_command_def future_done_def)

text \<open>
  Claim C2, amended. For every observer that is not done and is submitted to
  \<^verbatim>\<open>AsyncioRunner\<close> while more than the soft limit minus 10 descriptors are open (fewer
  than 10 are left), \<^verbatim>\<open>submit\<close> refuses: under the observer lock it stores a
  \<^verbatim>\<open>MolerException\<close> whose message tells the ceiling, so that the observer is failed, and it
  returns a future that is already done, without subscribing a sink, sending anything on
  the connection or recording the future.
\<close>

theorem submit_refuses_above_margin:
  assumes "curr_fds_open e > max_open_files_limit_soft e - 10"
    and "\<not> observer_done (observer w)"
  shows "\<exists>w'. AsyncioRunner_submit e w = (Inr impossible_future, w')
           \<and> future_done impossible_future
           \<and> state (observer w') = Failed (MolerException (limit_msg e))
           \<and> trace w' = trace w @ [(Set_exception (MolerException (limit_msg e)), True)]
           \<and> subscribers w' = subscribers w
           \<and> outbound w' = outbound w
           \<and> submitted_futures w' = submitted_futures w"
  using assms
  by (simp add: AsyncioRunner_submit_def check_limit_refuses set_exception_not_done
        future_done_def impossible_future_def)

theorem submit_refuses_above_margin_witness:
  "curr_fds_open (quiet_env\<lparr>curr_fds_open := 95\<rparr>)
      > max_open_files_limit_soft (quiet_env\<lparr>curr_fds_open := 95\<rparr>) - 10
   \<and> \<not> observer_done (observer world0)
   \<and> fst (AsyncioRunner_submit (quiet_env\<lparr>curr_fds_open := 95\<rparr>) world0) = Inr impossible_future
   \<and> state (observer (snd (AsyncioRunner_submit (quiet_env\<lparr>curr_fds_open := 95\<rparr>) world0)))
       = Failed (MolerException (limit_msg (quiet_env\<lparr>curr_fds_open := 95\<rparr>)))
   \<and> subscribers (snd (AsyncioRunner_submit (quiet_env\<lparr>curr_fds_open := 95\<rparr>) world0)) = {}"
proof -
  have a: "curr_fds_open (quiet_env\<lparr>curr_fds_open := 95\<rparr>)
      > max_open_files_limit_soft (quiet_env\<lparr>curr_fds_open := 95\<rparr>) - 10"
    by (simp add: quiet_env_def)
  have b: "\<not> observer_done (observer world0)"
    by (simp add: world0_def started_observer_def observer_done_def)
  from submit_refuses_above_margin [OF a b] a b show ?thesis
    by (auto simp: world0_def)
qed

subsection \<open>What \<^verbatim>\<open>submit\<close> raises\<close>

text \<open>
  Claim C3, as stated, fails: \<^verbatim>\<open>AsyncioRunner.submit\<close> raises. An observer whose
  \<^verbatim>\<open>start_time\<close> is 0 fails the assertion at the head of \<^verbatim>\<open>submit\<close>, and when the task is
  already done with an exception, \<^verbatim>\<open>submit\<close> logs it and raises it again.
\<close>

theorem submit_can_raise:
  "fst (AsyncioRunner_submit quiet_env (world0\<lparr>observer := started_observer\<lparr>start_time := 0\<rparr>\<rparr>))
     = Inl AssertionError
   \<and> fst (AsyncioRunner_submit
            (quiet_env\<lparr>ensured_future := \<lparr>fut_id = 1, fut_state = Raised (OtherError ''boom'')\<rparr>\<rparr>)
            world0)
     = Inl (OtherError ''boom'')"
  by (simp add: AsyncioRunner_submit_def check_system_resources_limit_def quiet_env_def
        world0_def started_observer_def thread_secure_get_event_loop_def start_feeding_def
        subscribe_def is_command_def future_done_def future_result_def)

lemma in_thread_submit_timeout:
  assumes "thread_starts t" and "\<not> thread_responsive t"
  shows "AsyncioInThreadRunner_submit t w
       = (Some (Inr None),
          unlocked (Set_exception (MolerException ''Failed to start observer feeder within 0.5 sec''))
            (set_exception (MolerException ''Failed to start observer feeder within 0.5 sec'')) w)"
  using assms
  by (simp add: AsyncioInThreadRunner_submit_def get_asyncio_loop_thread_def
        run_async_coroutine_def Let_def)

text \<open>
  Claim C3, amended. \<^verbatim>\<open>AsyncioRunner.submit\<close> never raises when it refuses an observer for
  the resource ceiling: the failure is in the observer and the future returned is
  resolved. It raises in exactly these cases, all of them with the resource check passed:
  the observer's \<^verbatim>\<open>start_time\<close> is not positive (the assertion), \<^verbatim>\<open>get_event_loop\<close> fails
  for another reason than a missing loop, sending the line of a command fails, or the
  task is already done with an exception or cancelled. \<^verbatim>\<open>AsyncioInThreadRunner.submit\<close>
  does not raise when its wait for the feeder times out: it stores a \<^verbatim>\<open>MolerException\<close>
  in the observer and returns \<^verbatim>\<open>None\<close>.
\<close>

theorem submit_raises_iff:
  "((\<exists>err. fst (AsyncioRunner_submit e w) = Inl err) \<longleftrightarrow>
      \<not> curr_fds_open e > max_open_files_limit_soft e - 10
      \<and> (\<not> start_time (observer w) > 0
         \<or> (\<exists>msg. get_event_loop e = Loop_failure msg)
         \<or> (is_command (observer w) \<and> send_failure e \<noteq> None)
         \<or> (\<exists>err. fut_state (ensured_future e) = Raised err)
         \<or> fut_state (ensured_future e) = Fut_cancelled))
   \<and> (thread_starts t \<and> \<not> thread_responsive t \<longrightarrow>
        (\<exists>w'. AsyncioInThreadRunner_submit t w = (Some (Inr None), w')
           \<and> (\<not> observer_done (observer w) \<longrightarrow>
                state (observer w')
                  = Failed (MolerException ''Failed to start observer feeder within 0.5 sec''))))"
proof (intro conjI impI)
  show "(\<exists>err. fst (AsyncioRunner_submit e w) = Inl err) \<longleftrightarrow>
      \<not> curr_fds_open e > max_open_files_limit_soft e - 10
      \<and> (\<not> start_time (observer w) > 0
         \<or> (\<exists>msg. get_event_loop e = Loop_failure msg)
         \<or> (is_command (observer w) \<and> send_failure e \<noteq> None)
         \<or> (\<exists>err. fut_state (ensured_future e) = Raised err)
         \<or> fut_state (ensured_future e) = Fut_cancelled)"
  proof (cases "curr_fds_open e > max_open_files_limit_soft e - 10")
    case True
    then show ?thesis
      by (simp add: AsyncioRunner_submit_def check_limit_refuses)
  next
    case False
    then show ?thesis
      by (cases "get_event_loop e"; cases "fut_state (ensured_future e)";
          cases "send_failure e")
         (auto simp: AsyncioRunner_submit_def check_limit_admits
            thread_secure_get_event_loop_def start_feeding_def subscribe_def is_command_def
            future_done_def future_result_def Let_def)
  qed
next
  assume "thread_starts t \<and> \<not> thread_responsive t"
  then show "\<exists>w'. AsyncioInThreadRunner_submit t w = (Some (Inr None), w')
           \<and> (\<not> observer_done (observer w) \<longrightarrow>
                state (observer w')
                  = Failed (MolerException ''Failed to start observer feeder within 0.5 sec''))"
    by (simp add: in_thread_submit_timeout set_exception_not_done)
qed

theorem submit_raises_iff_witness:
  "fst (AsyncioRunner_submit (quiet_env\<lparr>curr_fds_open := 95\<rparr>) world0) = Inr impossible_future
   \<and> (\<exists>err. fst (AsyncioRunner_submit quiet_env
                    (world0\<lparr>observer := started_observer\<lparr>start_time := 0\<rparr>\<rparr>)) = Inl err)
   \<and> thread_starts busy_thread \<and> \<not> thread_responsive busy_thread
   \<and> fst (AsyncioInThreadRunner_submit busy_thread world0) = Some (Inr None)
   \<and> state (observer (snd (AsyncioInThreadRunner_submit busy_thread world0)))
       = Failed (MolerException ''Failed to start observer feeder within 0.5 sec'')"
proof -
  have nd: "\<not> observer_done (observer world0)"
    by (simp add: world0_def started_observer_def observer_done_def)
  have busy: "thread_starts busy_thread \<and> \<not> thread_responsive busy_thread"
    by (simp add: busy_thread_def)
  have refused: "fst (AsyncioRunner_submit (quiet_env\<lparr>curr_fds_open := 95\<rparr>) world0)
                   = Inr impossible_future"
    by (simp add: AsyncioRunner_submit_def check_system_resources_limit_def quiet_env_def Let_def)
  note th = submit_raises_iff [where t = busy_thread]
  from th [where e = quiet_env and w = "world0\<lparr>observer := started_observer\<lparr>start_time := 0\<rparr>\<rparr>"]
  have "\<exists>err. fst (AsyncioRunner_submit quiet_env
                    (world0\<lparr>observer := started_observer\<lparr>start_time := 0\<rparr>\<rparr>)) = Inl err"
    by (simp add: quiet_env_def)
  moreover from th [where e = quiet_env and w = world0] busy nd
  have "\<exists>w'. AsyncioInThreadRunner_submit busy_thread world0 = (Some (Inr None), w')
           \<and> state (observer w')
               = Failed (MolerException ''Failed to start observer feeder within 0.5 sec'')"
    by simp
  ultimately show ?thesis using refused busy by auto
qed

subsection \<open>Starting the feeder in the loop thread\<close>

lemma in_thread_submit_comes_back: "fst (AsyncioInThreadRunner_submit t w) \<noteq> None"
  by (cases "thread_starts t"; cases "thread_responsive t")
     (simp_all add: AsyncioInThreadRunner_submit_def get_asyncio_loop_thread_def
        run_async_coroutine_def start_feeder_def bind_arguments_def feed_parameters_def
        Let_def)

text \<open>
  Claim C8 at the failing input: any observer, submitted when the loop thread is there and
  takes the coroutine in time. \<^verbatim>\<open>start_feeder\<close> calls \<^verbatim>\<open>self.feed\<close> with
  \<^verbatim>\<open>subscribed_data_receiver\<close> given twice, by position and by keyword; the \<^verbatim>\<open>TypeError\<close> of
  that call comes out of \<^verbatim>\<open>run_async_coroutine\<close>, is not a \<^verbatim>\<open>MolerTimeout\<close>, and leaves
  \<^verbatim>\<open>submit\<close>. The observer is left as it was: no failure is stored.
\<close>

theorem in_thread_submit_raises_type_error:
  "AsyncioInThreadRunner_submit ready_thread world0
     = (Some (Inl (TypeError (''feed() got multiple values for argument ''
                     @ quoted ''subscribed_data_receiver''))), world0)"
  by (simp add: AsyncioInThreadRunner_submit_def ready_thread_def get_asyncio_loop_thread_def
        run_async_coroutine_def start_feeder_def bind_arguments_def feed_parameters_def)


subsection \<open>The sink\<close>

lemma secure_data_received_discards:
  assumes "observer_done (observer w) \<or> in_shutdown w"
  shows "secure_data_received dr data w = (None, w)"
  using assms by (simp add: secure_data_received_def)

lemma deliver_discards:
  assumes "observer_done (observer w) \<or> in_shutdown w"
  shows "deliver dr s data w = (None, w)"
  using assms by (simp add: deliver_def secure_data_received_discards)

lemma deliver_all_discards:
  assumes "observer_done (observer w) \<or> in_shutdown w"
  shows "deliver_all dr s datas w = (None, w)"
  using assms by (induction datas) (simp_all add: deliver_discards)

text \<open>
  Claim C5. Once the observer is done, or the runner is in shutdown, a chunk that the
  connection hands to the sink is dropped: the call returns without an exception and the
  world is as before, so \<^verbatim>\<open>data_received\<close> was not called (the trace has no new entry)
  and the observer has not changed. As nothing changes, the same holds for every chunk
  that follows.
\<close>

theorem done_or_shutdown_discards:
  assumes "observer_done (observer w) \<or> in_shutdown w"
  shows "secure_data_received dr data w = (None, w)
       \<and> deliver dr s data w = (None, w)
       \<and> deliver_all dr s datas w = (None, w)"
  using assms
  by (simp add: secure_data_received_discards deliver_discards deliver_all_discards)

theorem done_or_shutdown_discards_witness:
  "observer_done (observer (world0\<lparr>observer := started_observer\<lparr>state := Cancelled\<rparr>,
                                    subscribers := {7}\<rparr>))
   \<and> deliver_all greedy 7 [''a'', ''bc'']
        (world0\<lparr>observer := started_observer\<lparr>state := Cancelled\<rparr>, subscribers := {7}\<rparr>)
     = (None, world0\<lparr>observer := started_observer\<lparr>state := Cancelled\<rparr>, subscribers := {7}\<rparr>)
   \<and> in_shutdown (world0\<lparr>in_shutdown := True, subscribers := {7}\<rparr>)
   \<and> deliver greedy 7 ''a'' (world0\<lparr>in_shutdown := True, subscribers := {7}\<rparr>)
     = (None, world0\<lparr>in_shutdown := True, subscribers := {7}\<rparr>)
   \<and> state (observer (snd (deliver greedy 7 ''a'' (world0\<lparr>subscribers := {7}\<rparr>)))) = Succeeded 1"
proof -
  have d: "observer_done (observer (world0\<lparr>observer := started_observer\<lparr>state := Cancelled\<rparr>,
                                    subscribers := {7}\<rparr>))"
    by (simp add: observer_done_def)
  have sh: "in_shutdown (world0\<lparr>in_shutdown := True, subscribers := {7}\<rparr>)"
    by simp
  have live: "state (observer (snd (deliver greedy 7 ''a'' (world0\<lparr>subscribers := {7}\<rparr>))))
                = Succeeded 1"
    by (simp add: deliver_def secure_data_received_def world0_def started_observer_def
          observer_done_def record_call_def greedy_def set_result_def)
  from done_or_shutdown_discards [where dr = greedy and s = 7 and datas = "[''a'', ''bc'']",
         of "world0\<lparr>observer := started_observer\<lparr>state := Cancelled\<rparr>, subscribers := {7}\<rparr>"]
       done_or_shutdown_discards [where dr = greedy and s = 7 and data = "''a''",
         of "world0\<lparr>in_shutdown := True, subscribers := {7}\<rparr>"]
       d sh live
  show ?thesis by simp
qed

text \<open>
  Claim C6. When \<^verbatim>\<open>data_received\<close> raises an exception on a chunk, the sink catches it
  and calls \<^verbatim>\<open>set_exception\<close> with it under the observer lock; an observer that
  \<^verbatim>\<open>data_received\<close> had not made done is failed with that exception afterwards. The sink
  itself returns without an exception, so nothing reaches the connection, and with it
  the other subscribers.
\<close>

theorem sink_stores_exception:
  assumes "\<not> observer_done (observer w)" and "\<not> in_shutdown w"
    and "dr data (observer w) = (Some err, ob)"
  shows "\<exists>w'. secure_data_received dr data w = (None, w')
           \<and> observer w' = set_exception err ob
           \<and> (\<not> observer_done ob \<longrightarrow> state (observer w') = Failed err)
           \<and> trace w' = trace w @ [(Data_received data, True), (Set_exception err, True)]
           \<and> \<not> lock_held w'
           \<and> (s \<in> subscribers w \<longrightarrow> deliver dr s data w = (None, w'))"
  using assms
  by (simp add: secure_data_received_def deliver_def record_call_def set_exception_not_done)

theorem sink_stores_exception_witness:
  "\<not> observer_done (observer (world0\<lparr>subscribers := {7}\<rparr>))
   \<and> \<not> in_shutdown (world0\<lparr>subscribers := {7}\<rparr>)
   \<and> faulty ''x'' (observer (world0\<lparr>subscribers := {7}\<rparr>)) = (Some (OtherError ''x''), started_observer)
   \<and> fst (deliver faulty 7 ''x'' (world0\<lparr>subscribers := {7}\<rparr>)) = None
   \<and> state (observer (snd (deliver faulty 7 ''x'' (world0\<lparr>subscribers := {7}\<rparr>))))
       = Failed (OtherError ''x'')"
proof -
  have nd: "\<not> observer_done (observer (world0\<lparr>subscribers := {7}\<rparr>))"
    by (simp add: world0_def started_observer_def observer_done_def)
  have ns: "\<not> in_shutdown (world0\<lparr>subscribers := {7}\<rparr>)"
    by (simp add: world0_def)
  have r: "faulty ''x'' (observer (world0\<lparr>subscribers := {7}\<rparr>))
             = (Some (OtherError ''x''), started_observer)"
    by (simp add: faulty_def world0_def)
  have nd': "\<not> observer_done started_observer"
    by (simp add: started_observer_def observer_done_def)
  from sink_stores_exception [where dr = faulty and data = "''x''" and s = 7, OF nd ns r] nd'
  have "\<exists>w'. deliver faulty 7 ''x'' (world0\<lparr>subscribers := {7}\<rparr>) = (None, w')
          \<and> state (observer w') = Failed (OtherError ''x'')"
    by auto
  with nd ns r show ?thesis by auto
qed

subsection \<open>Waiting\<close>

lemma run_via_asyncio_timeout:
  assumes "truthy tmo" and "run w fut True = (w1, fut1, Raised TimeoutError)"
  shows "run_via_asyncio run w fut tmo = (Some TimeoutError, w1, fut1)"
  using assms by (simp add: run_via_asyncio_def run_until_complete_result_def)

lemma record_call_simps [simp]:
  "observer (record_call c w) = observer w"
  "trace (record_call c w) = trace w @ [(c, lock_held w)]"
  "lock_held (record_call c w) = lock_held w"
  "subscribers (record_call c w) = subscribers w"
  "submitted_futures (record_call c w) = submitted_futures w"
  by (simp_all add: record_call_def)

text \<open>
  Claim C4. \<^verbatim>\<open>AsyncioRunner.wait_for\<close> is called for an observer that is not done, with a
  timeout (a value that Python takes as true), from a thread that has a loop which is not
  running. When the run of the loop ends with the \<^verbatim>\<open>TimeoutError\<close> of
  \<^verbatim>\<open>asyncio.wait_for\<close> and the observer is still not done, then \<^verbatim>\<open>wait_for\<close> returns
  without an exception, the observer is failed with a Timeout that carries the caller's
  timeout, the kind \<^verbatim>\<open>await_done\<close> and the time passed since \<^verbatim>\<open>start_time\<close>, the call of
  \<^verbatim>\<open>time_out_observer\<close> was made with the observer lock held, and \<^verbatim>\<open>cancel()\<close> was called
  on the future after that, which leaves a future that was not finished cancelled.
\<close>

theorem wait_for_timeout_fails_observer:
  assumes "\<not> observer_done (observer w)"
    and "truthy wait_timeout"
    and "get_event_loop e = Has_loop" and "\<not> loop_is_running e"
    and "run w fut True = (w1, fut1, Raised TimeoutError)"
    and "\<not> observer_done (observer w1)"
  shows "\<exists>w'. AsyncioRunner_wait_for e c run w fut wait_timeout = (None, w', future_cancel fut1)
           \<and> state (observer w')
               = Failed (MolerTimeout wait_timeout (Some ''await_done'')
                           (time_time e - start_time (observer w1)))
           \<and> trace w' = trace w1 @ [(Time_out_observer, True), (Future_cancel, False)]
           \<and> (fut_state fut1 = Pending \<or> fut_state fut1 = Fut_cancelled
                \<longrightarrow> fut_state (future_cancel fut1) = Fut_cancelled)"
  using assms
  by (auto simp: AsyncioRunner_wait_for_def thread_secure_get_event_loop_def
        run_via_asyncio_timeout Let_def exception_stored_if_not_main_thread_def
        time_out_observer_def set_exception_not_done future_cancel_def)


theorem wait_for_timeout_fails_observer_witness:
  "\<not> observer_done (observer world0)
   \<and> truthy (Some 0.5)
   \<and> get_event_loop quiet_env = Has_loop \<and> \<not> loop_is_running quiet_env
   \<and> timed_out_run world0 \<lparr>fut_id = 1, fut_state = Pending\<rparr> True
       = (world0, \<lparr>fut_id = 1, fut_state = Pending\<rparr>, Raised TimeoutError)
   \<and> AsyncioRunner_wait_for quiet_env user timed_out_run world0
        \<lparr>fut_id = 1, fut_state = Pending\<rparr> (Some 0.5)
     = (None,
        world0\<lparr>observer := started_observer
                   \<lparr>state := Failed (MolerTimeout (Some 0.5) (Some ''await_done'') 4)\<rparr>,
               trace := [(Time_out_observer, True), (Future_cancel, False)]\<rparr>,
        \<lparr>fut_id = 1, fut_state = Fut_cancelled\<rparr>)"
proof -
  have nd: "\<not> observer_done (observer world0)"
    by (simp add: world0_def started_observer_def observer_done_def)
  have tr: "truthy (Some 0.5)" by simp
  have lp: "get_event_loop quiet_env = Has_loop" and nr: "\<not> loop_is_running quiet_env"
    by (simp_all add: quiet_env_def)
  have rn: "timed_out_run world0 \<lparr>fut_id = 1, fut_state = Pending\<rparr> True
       = (world0, \<lparr>fut_id = 1, fut_state = Pending\<rparr>, Raised TimeoutError)"
    by (simp add: timed_out_run_def)
  from wait_for_timeout_fails_observer [where run = timed_out_run and w = world0
         and fut = "\<lparr>fut_id = 1, fut_state = Pending\<rparr>" and c = user, OF nd tr lp nr rn nd]
  obtain w' where r: "AsyncioRunner_wait_for quiet_env user timed_out_run world0
        \<lparr>fut_id = 1, fut_state = Pending\<rparr> (Some 0.5)
          = (None, w', future_cancel \<lparr>fut_id = 1, fut_state = Pending\<rparr>)"
    by blast
  have "AsyncioRunner_wait_for quiet_env user timed_out_run world0
        \<lparr>fut_id = 1, fut_state = Pending\<rparr> (Some 0.5)
     = (None,
        world0\<lparr>observer := started_observer
                   \<lparr>state := Failed (MolerTimeout (Some 0.5) (Some ''await_done'') 4)\<rparr>,
               trace := [(Time_out_observer, True), (Future_cancel, False)]\<rparr>,
        \<lparr>fut_id = 1, fut_state = Fut_cancelled\<rparr>)"
    by (simp add: AsyncioRunner_wait_for_def world0_def started_observer_def observer_done_def
          quiet_env_def thread_secure_get_event_loop_def run_via_asyncio_def timed_out_run_def
          run_until_complete_result_def locked_def record_call_def time_out_observer_def
          set_exception_def exception_stored_if_not_main_thread_def future_cancel_def Let_def)
  with r nd tr lp nr rn show ?thesis by simp
qed

text \<open>
  Claim C7, as stated, fails. With the loop of the calling thread running,
  \<^verbatim>\<open>AsyncioInThreadRunner.wait_for\<close> returns \<^verbatim>\<open>None\<close> for an observer that is not done: the
  \<^verbatim>\<open>WrongUsage\<close> is caught by its own \<^verbatim>\<open>except Exception\<close> clause and stored in the
  observer. And for an observer that is already done, \<^verbatim>\<open>AsyncioRunner.wait_for\<close> returns
  \<^verbatim>\<open>None\<close> before it looks at the loop.
\<close>

theorem in_thread_wait_for_stores_wrong_usage:
  "fst (AsyncioInThreadRunner_wait_for (quiet_env\<lparr>loop_is_running := True\<rparr>) user ready_thread
          still world0 \<lparr>fut_id = 1, fut_state = Pending\<rparr> None) = Some None
   \<and> state (observer (fst (snd (AsyncioInThreadRunner_wait_for
             (quiet_env\<lparr>loop_is_running := True\<rparr>) user ready_thread
             still world0 \<lparr>fut_id = 1, fut_state = Pending\<rparr> None))))
       = Failed (WrongUsage (wrong_usage_msg ''await_done'' ''Attach''))
   \<and> fst (AsyncioRunner_wait_for (quiet_env\<lparr>loop_is_running := True\<rparr>) user timed_out_run
            (world0\<lparr>observer := started_observer\<lparr>state := Succeeded 3\<rparr>\<rparr>)
            \<lparr>fut_id = 1, fut_state = Pending\<rparr> None) = None"
  by (simp add: AsyncioInThreadRunner_wait_for_def AsyncioRunner_wait_for_def quiet_env_def
        user_def ready_thread_def world0_def started_observer_def observer_done_def
        get_asyncio_loop_thread_def thread_secure_get_event_loop_def future_done_def
        future_cancel_def unlocked_def record_call_def set_exception_def
        observer_exception_def Let_def)

text \<open>
  Claim C7, amended. \<^verbatim>\<open>wait_for\<close> is called while the loop of the calling thread is
  running. For an observer that is not done, \<^verbatim>\<open>AsyncioRunner.wait_for\<close>, called in the main
  thread, raises \<^verbatim>\<open>WrongUsage\<close> and leaves the observer as it was, and
  \<^verbatim>\<open>AsyncioInThreadRunner.wait_for\<close> stores the \<^verbatim>\<open>WrongUsage\<close> as the observer's exception
  and returns \<^verbatim>\<open>None\<close>. Neither of them blocks. For an observer that is done, both return
  \<^verbatim>\<open>None\<close>.
\<close>

theorem wait_for_in_running_loop:
  assumes "loop_is_running e" and "get_event_loop e = Has_loop"
  shows "(\<not> observer_done (observer w) \<and> in_main_thread c \<longrightarrow>
            (\<exists>w' fut'. AsyncioRunner_wait_for e c run w fut tmo
                = (Some (WrongUsage (wrong_usage_msg (user_call_name c) (class_name c))), w', fut')
              \<and> observer w' = observer w))
       \<and> (\<not> observer_done (observer w) \<and> thread_starts t \<longrightarrow>
            (\<exists>w' fut'. AsyncioInThreadRunner_wait_for e c t bg w fut tmo = (Some None, w', fut')
              \<and> state (observer w')
                  = Failed (WrongUsage (wrong_usage_msg (user_call_name c) (class_name c)))))
       \<and> (observer_done (observer w) \<longrightarrow>
            fst (AsyncioRunner_wait_for e c run w fut tmo) = None
            \<and> AsyncioInThreadRunner_wait_for e c t bg w fut tmo = (Some None, w, fut))"
  using assms
  by (auto simp: AsyncioRunner_wait_for_def AsyncioInThreadRunner_wait_for_def
        thread_secure_get_event_loop_def exception_stored_if_not_main_thread_def
        get_asyncio_loop_thread_def observer_exception_def set_exception_def
        observer_done_def Let_def split: obs_state.splits)


theorem wait_for_in_running_loop_witness:
  "loop_is_running (quiet_env\<lparr>loop_is_running := True\<rparr>)
   \<and> get_event_loop (quiet_env\<lparr>loop_is_running := True\<rparr>) = Has_loop
   \<and> \<not> observer_done (observer world0) \<and> in_main_thread user \<and> thread_starts ready_thread
   \<and> fst (AsyncioRunner_wait_for (quiet_env\<lparr>loop_is_running := True\<rparr>) user timed_out_run
            world0 \<lparr>fut_id = 1, fut_state = Pending\<rparr> (Some 0.5))
       = Some (WrongUsage (wrong_usage_msg ''await_done'' ''Attach''))
   \<and> fst (AsyncioInThreadRunner_wait_for (quiet_env\<lparr>loop_is_running := True\<rparr>) user
            ready_thread still world0 \<lparr>fut_id = 1, fut_state = Pending\<rparr> (Some 0.5))
       = Some None"
proof -
  have a: "loop_is_running (quiet_env\<lparr>loop_is_running := True\<rparr>)" by simp
  have b: "get_event_loop (quiet_env\<lparr>loop_is_running := True\<rparr>) = Has_loop"
    by (simp add: quiet_env_def)
  have nd: "\<not> observer_done (observer world0)"
    by (simp add: world0_def started_observer_def observer_done_def)
  have m: "in_main_thread user" and n: "user_call_name user = ''await_done''"
    and k: "class_name user = ''Attach''"
    by (simp_all add: user_def)
  have th: "thread_starts ready_thread" by (simp add: ready_thread_def)
  from wait_for_in_running_loop [OF a b, where w = world0 and c = user and t = ready_thread
         and run = timed_out_run and bg = still
         and fut = "\<lparr>fut_id = 1, fut_state = Pending\<rparr>" and tmo = "Some 0.5"]
       nd m n k th
  have "fst (AsyncioRunner_wait_for (quiet_env\<lparr>loop_is_running := True\<rparr>) user timed_out_run
            world0 \<lparr>fut_id = 1, fut_state = Pending\<rparr> (Some 0.5))
       = Some (WrongUsage (wrong_usage_msg ''await_done'' ''Attach''))
   \<and> fst (AsyncioInThreadRunner_wait_for (quiet_env\<lparr>loop_is_running := True\<rparr>) user
            ready_thread still world0 \<lparr>fut_id = 1, fut_state = Pending\<rparr> (Some 0.5))
       = Some None"
    by auto
  with a b nd m th show ?thesis by simp
qed

end
